theory Spec2Isabelle
  imports Main
begin

section \<open>Reverse tunnel: cluster peers and the local site\<close>

text \<open>
  A shallow embedding of \<^verbatim>\<open>lib/reversetunnel/peer.go\<close> and
  \<^verbatim>\<open>lib/reversetunnel/localsite.go\<close>.

  \<^item> \<^verbatim>\<open>time.Time\<close> is an instant, counted in nanoseconds from the zero value
    \<^verbatim>\<open>time.Time{}\<close>; \<^verbatim>\<open>time.Duration\<close> is a signed 64-bit count of nanoseconds.
    Heartbeats come from stored connection descriptors and carry no monotonic clock
    reading, so instants are compared by wall clock.
  \<^item> \<^verbatim>\<open>services.TunnelConnection\<close> is an interface read through its getters only; it
    is a record of what the getters return.
  \<^item> \<^verbatim>\<open>*clusterPeer\<close> is a pointer: the peer map holds addresses, and a store maps
    each address to the peer it points to, so that an assignment through the pointer
    is seen through every alias. \<^verbatim>\<open>addPeer\<close> reads \<^verbatim>\<open>peer.connInfo\<close> before it stores
    the pointer, so the map holds no nil pointer and every address denotes a peer.
  \<^item> Interface values that may be nil (\<^verbatim>\<open>auth.ClientI\<close>, \<^verbatim>\<open>auth.AccessPoint\<close>) are
    optional handles, \<open>None\<close> being nil.
  \<^item> Logging calls have no effect on any result and are left out; the \<^verbatim>\<open>log\<close> field of
    a peer is kept, as the list of its component fields.
\<close>

subsection \<open>Time\<close>

type_synonym Time = int
type_synonym Duration = int

definition zeroTime :: Time where
  "zeroTime = 0"

definition maxDuration :: Duration where
  "maxDuration = 2 ^ 63 - 1"

definition minDuration :: Duration where
  "minDuration = - (2 ^ 63)"

text \<open>\<^verbatim>\<open>t.After(u)\<close>: the instant \<open>t\<close> is after \<open>u\<close>.\<close>

definition After :: "Time \<Rightarrow> Time \<Rightarrow> bool" where
  "After t u = (u < t)"

text \<open>
  \<^verbatim>\<open>t.Sub(u)\<close>: the duration \<open>t - u\<close>; when it does not fit a \<^verbatim>\<open>Duration\<close> the
  largest (or smallest) duration is returned.
\<close>

definition Sub :: "Time \<Rightarrow> Time \<Rightarrow> Duration" where
  "Sub t u =
     (if t - u > maxDuration then maxDuration
      else if t - u < minDuration then minDuration
      else t - u)"

subsection \<open>Errors\<close>

text \<open>
  \<^verbatim>\<open>trace.NotFound(format, args...)\<close> keeps its format string and arguments;
  \<^verbatim>\<open>trace.Wrap(err)\<close> wraps an error; \<open>External\<close> is an error returned by a
  collaborator (the SSH client, the auth client, the network).
\<close>

datatype error =
    NotFound string "string list"
  | External nat
  | Wrap error

fun IsNotFound :: "error \<Rightarrow> bool" where
  "IsNotFound (NotFound _ _) = True"
| "IsNotFound (External _) = False"
| "IsNotFound (Wrap e) = IsNotFound e"

subsection \<open>Data model\<close>

record TunnelConnection =
  GetName :: string
  GetClusterName :: string
  GetProxyAddr :: string
  GetLastHeartbeat :: Time

type_synonym ClientI = "nat option"
type_synonym AccessPoint = "nat option"
type_synonym server = nat

record clusterPeer =
  log :: "(string \<times> string) list"
  clt :: ClientI
  accessPoint :: AccessPoint
  connInfo :: TunnelConnection
  srv :: server

type_synonym peer_ptr = nat
type_synonym store = "peer_ptr \<Rightarrow> clusterPeer"

record clusterPeers =
  clusterName :: string
  peers :: "string \<rightharpoonup> peer_ptr"

text \<open>
  Modelled from the spec: the status constants \<^verbatim>\<open>RemoteSiteStatusOffline\<close> and
  \<^verbatim>\<open>RemoteSiteStatusOnline\<close> are declared outside the files at hand; the
  specification gives the status strings as "offline" and "online".
\<close>

definition RemoteSiteStatusOffline :: string where
  "RemoteSiteStatusOffline = ''offline''"

definition RemoteSiteStatusOnline :: string where
  "RemoteSiteStatusOnline = ''online''"

subsection \<open>clusterPeers\<close>

definition newClusterPeers :: "string \<Rightarrow> clusterPeers" where
  "newClusterPeers name = \<lparr>clusterName = name, peers = Map.empty\<rparr>"

text \<open>
  The loop of \<^verbatim>\<open>pickPeer\<close> over the peers it ranges over, in the order met;
  \<open>currentPeer\<close> is \<open>None\<close> while it is nil.
\<close>

fun pickPeer_loop :: "store \<Rightarrow> peer_ptr list \<Rightarrow> peer_ptr option \<Rightarrow> peer_ptr option" where
  "pickPeer_loop h [] currentPeer = currentPeer"
| "pickPeer_loop h (peer # rest) currentPeer =
     pickPeer_loop h rest
       (case currentPeer of
          None \<Rightarrow> Some peer
        | Some cur \<Rightarrow>
            if After (GetLastHeartbeat (connInfo (h peer))) (GetLastHeartbeat (connInfo (h cur)))
            then Some peer else currentPeer)"

text \<open>
  Go ranges over a map in an order of its choosing, which may differ from one loop to
  the next: \<open>order\<close> is the order in which the keys are met, any enumeration of the
  map's keys without repetition.
\<close>

definition iteration_order :: "clusterPeers \<Rightarrow> string list \<Rightarrow> bool" where
  "iteration_order p order = (distinct order \<and> set order = dom (peers p))"

definition pickPeer :: "clusterPeers \<Rightarrow> store \<Rightarrow> string list \<Rightarrow> error + peer_ptr" where
  "pickPeer p h order =
     (case pickPeer_loop h (List.map_filter (peers p) order) None of
        None \<Rightarrow> Inl (NotFound ''no active peers found for %v'' [])
      | Some currentPeer \<Rightarrow> Inr currentPeer)"

definition updatePeer :: "clusterPeers \<Rightarrow> store \<Rightarrow> TunnelConnection \<Rightarrow> bool \<times> clusterPeers \<times> store" where
  "updatePeer p h conn =
     (case peers p (GetName conn) of
        None \<Rightarrow> (False, p, h)
      | Some peer \<Rightarrow> (True, p, h(peer := (h peer)\<lparr>connInfo := conn\<rparr>)))"

definition addPeer :: "clusterPeers \<Rightarrow> store \<Rightarrow> peer_ptr \<Rightarrow> clusterPeers" where
  "addPeer p h peer = p\<lparr>peers := (peers p)(GetName (connInfo (h peer)) \<mapsto> peer)\<rparr>"

definition removePeer :: "clusterPeers \<Rightarrow> TunnelConnection \<Rightarrow> clusterPeers" where
  "removePeer p connInfo' = p\<lparr>peers := (peers p)(GetName connInfo' := None)\<rparr>"

subsection \<open>clusterPeer: status\<close>

definition clusterPeer_CachingAccessPoint :: "clusterPeer \<Rightarrow> error + AccessPoint" where
  "clusterPeer_CachingAccessPoint s = Inr (accessPoint s)"

definition clusterPeer_GetClient :: "clusterPeer \<Rightarrow> error + ClientI" where
  "clusterPeer_GetClient s = Inr (clt s)"

text \<open>
  \<open>now\<close> is what \<^verbatim>\<open>time.Now()\<close> returns; \<open>threshold\<close> is the constant
  \<^verbatim>\<open>defaults.ReverseTunnelOfflineThreshold\<close>, declared outside the files at hand.
\<close>

definition clusterPeer_GetStatus :: "Duration \<Rightarrow> Time \<Rightarrow> clusterPeer \<Rightarrow> string" where
  "clusterPeer_GetStatus threshold now s =
     (let diff = Sub now (GetLastHeartbeat (connInfo s))
      in if diff > threshold then RemoteSiteStatusOffline else RemoteSiteStatusOnline)"

definition clusterPeer_GetName :: "clusterPeer \<Rightarrow> string" where
  "clusterPeer_GetName s = GetClusterName (connInfo s)"

definition clusterPeer_GetLastConnected :: "clusterPeer \<Rightarrow> Time" where
  "clusterPeer_GetLastConnected s = GetLastHeartbeat (connInfo s)"

subsection \<open>clusterPeers: delegation to the picked peer\<close>

definition clusterPeers_CachingAccessPoint ::
  "clusterPeers \<Rightarrow> store \<Rightarrow> string list \<Rightarrow> error + AccessPoint" where
  "clusterPeers_CachingAccessPoint p h order =
     (case pickPeer p h order of
        Inl err \<Rightarrow> Inl (Wrap err)
      | Inr peer \<Rightarrow> clusterPeer_CachingAccessPoint (h peer))"

definition clusterPeers_GetClient ::
  "clusterPeers \<Rightarrow> store \<Rightarrow> string list \<Rightarrow> error + ClientI" where
  "clusterPeers_GetClient p h order =
     (case pickPeer p h order of
        Inl err \<Rightarrow> Inl (Wrap err)
      | Inr peer \<Rightarrow> clusterPeer_GetClient (h peer))"

definition clusterPeers_GetStatus ::
  "Duration \<Rightarrow> Time \<Rightarrow> clusterPeers \<Rightarrow> store \<Rightarrow> string list \<Rightarrow> string" where
  "clusterPeers_GetStatus threshold now p h order =
     (case pickPeer p h order of
        Inl err \<Rightarrow> RemoteSiteStatusOffline
      | Inr peer \<Rightarrow> clusterPeer_GetStatus threshold now (h peer))"

definition clusterPeers_GetName :: "clusterPeers \<Rightarrow> string" where
  "clusterPeers_GetName p = clusterName p"

definition clusterPeers_GetLastConnected ::
  "clusterPeers \<Rightarrow> store \<Rightarrow> string list \<Rightarrow> Time" where
  "clusterPeers_GetLastConnected p h order =
     (case pickPeer p h order of
        Inl err \<Rightarrow> zeroTime
      | Inr peer \<Rightarrow> clusterPeer_GetLastConnected (h peer))"

definition clusterPeers_String :: "clusterPeers \<Rightarrow> string" where
  "clusterPeers_String p = ''clusterPeer('' @ clusterName p @ '')''"

subsection \<open>clusterPeer: dialing through the peer\<close>

text \<open>
  \<^verbatim>\<open>net.Addr\<close> is an interface with the methods \<^verbatim>\<open>Network()\<close> and \<^verbatim>\<open>String()\<close>;
  formatting an address with \<^verbatim>\<open>%v\<close> prints what \<^verbatim>\<open>String()\<close> returns.
\<close>

record net_Addr =
  Network :: string
  String :: string

type_synonym ClientConfig = nat
type_synonym ssh_Client = nat
type_synonym ssh_Session = nat
type_synonym Reader = nat
type_synonym Writer = nat
type_synonym ProxyDialer = nat

text \<open>
  A \<^verbatim>\<open>net.Conn\<close> is either the adapter that \<^verbatim>\<open>utils.NewPipeNetConn\<close> builds from a
  reader, a writer, a closer and the two addresses, or a connection handed out by a
  collaborator.
\<close>

datatype net_Conn =
    NewPipeNetConn Reader Writer ssh_Session net_Addr net_Addr
  | Conn nat

text \<open>
  \<^verbatim>\<open>ProxyDialerConfig\<close>: the \<^verbatim>\<open>Dial\<close> field holds the method value
  \<^verbatim>\<open>clusterPeer.Dial\<close>, which is bound to the pointer to the peer.
\<close>

record ProxyDialerConfig =
  Config :: ClientConfig
  Dial :: peer_ptr

text \<open>
  The collaborators of a peer, as what each call returns. One call of \<^verbatim>\<open>Dial\<close> or of
  \<^verbatim>\<open>newClusterPeer\<close> calls each at most once, so a function of the arguments is as
  general as a stateful collaborator. \<^verbatim>\<open>NewProxyDialer\<close> returns a dialer and an
  error, as Go returns both values; \<open>auth_NewClient\<close> receives the dialer whose
  \<^verbatim>\<open>Dial\<close> method it is given.
\<close>

record peer_env =
  srv_ClientConfig :: "server \<Rightarrow> ClientConfig"
  proxy_DialWithDeadline :: "string \<Rightarrow> string \<Rightarrow> ClientConfig \<Rightarrow> error + ssh_Client"
  client_NewSession :: "ssh_Client \<Rightarrow> error + ssh_Session"
  se_StdinPipe :: "ssh_Session \<Rightarrow> error + Writer"
  se_StdoutPipe :: "ssh_Session \<Rightarrow> error + Reader"
  se_RequestSubsystem :: "ssh_Session \<Rightarrow> string \<Rightarrow> error option"
  NewProxyDialer :: "ProxyDialerConfig \<Rightarrow> ProxyDialer \<times> error option"
  auth_NewClient :: "string \<Rightarrow> ProxyDialer \<Rightarrow> error + ClientI"
  srv_newAccessPoint :: "server \<Rightarrow> ClientI \<Rightarrow> string list \<Rightarrow> error + AccessPoint"

text \<open>What \<^verbatim>\<open>Dial\<close> does to its collaborators, in the order it does it.\<close>

datatype ssh_event =
    DialWithDeadline string string ClientConfig
  | NewSession ssh_Client
  | StdinPipe ssh_Session
  | StdoutPipe ssh_Session
  | RequestSubsystem ssh_Session string
  | SessionClose ssh_Session
  | ClientClose ssh_Client

text \<open>
  \<^verbatim>\<open>clusterPeer.Dial\<close>. A \<^verbatim>\<open>defer\<close> statement registers its call once control passes
  it, and the registered calls run, last registered first, when the function returns,
  by whichever \<^verbatim>\<open>return\<close>: \<open>deferred\<close> is the list of the calls registered so far,
  appended to the events at each \<^verbatim>\<open>return\<close>.
\<close>

definition clusterPeer_Dial ::
  "peer_env \<Rightarrow> clusterPeer \<Rightarrow> net_Addr \<Rightarrow> net_Addr \<Rightarrow> (error + net_Conn) \<times> ssh_event list" where
  "clusterPeer_Dial env s from to =
     (let cfg = srv_ClientConfig env (srv s);
          evs = [DialWithDeadline (Network to) (GetProxyAddr (connInfo s)) cfg]
      in case proxy_DialWithDeadline env (Network to) (GetProxyAddr (connInfo s)) cfg of
           Inl err \<Rightarrow> (Inl (Wrap err), evs)
         | Inr client \<Rightarrow>
        (let deferred = [ClientClose client];
             evs = evs @ [NewSession client]
         in case client_NewSession env client of
              Inl err \<Rightarrow> (Inl (Wrap err), evs @ deferred)
            | Inr se \<Rightarrow>
        (let deferred = SessionClose se # deferred;
             evs = evs @ [StdinPipe se]
         in case se_StdinPipe env se of
              Inl err \<Rightarrow> (Inl (Wrap err), evs @ deferred)
            | Inr writer \<Rightarrow>
        (let evs = evs @ [StdoutPipe se]
         in case se_StdoutPipe env se of
              Inl err \<Rightarrow> (Inl (Wrap err), evs @ deferred)
            | Inr reader \<Rightarrow>
        (let name = ''proxy:'' @ String to @ ''@'' @ GetClusterName (connInfo s);
             evs = evs @ [RequestSubsystem se name]
         in case se_RequestSubsystem env se name of
              Some err \<Rightarrow> (Inl (Wrap err), evs @ deferred)
            | None \<Rightarrow> (Inr (NewPipeNetConn reader writer se from to), evs @ deferred))))))"

definition clusterPeers_Dial ::
  "peer_env \<Rightarrow> clusterPeers \<Rightarrow> store \<Rightarrow> string list \<Rightarrow> net_Addr \<Rightarrow> net_Addr \<Rightarrow>
     (error + net_Conn) \<times> ssh_event list" where
  "clusterPeers_Dial env p h order from to =
     (case pickPeer p h order of
        Inl err \<Rightarrow> (Inl (Wrap err), [])
      | Inr peer \<Rightarrow> clusterPeer_Dial env (h peer) from to)"

fun is_RequestSubsystem :: "ssh_event \<Rightarrow> bool" where
  "is_RequestSubsystem (RequestSubsystem _ _) = True"
| "is_RequestSubsystem _ = False"

fun is_Close :: "ssh_event \<Rightarrow> bool" where
  "is_Close (SessionClose _) = True"
| "is_Close (ClientClose _) = True"
| "is_Close _ = False"

subsection \<open>clusterPeer: construction\<close>

text \<open>
  \<^verbatim>\<open>newClusterPeer\<close> allocates the peer at the address \<open>new\<close> and returns the pointer.
  The error that \<^verbatim>\<open>NewProxyDialer\<close> returns is assigned to \<^verbatim>\<open>err\<close> and overwritten by
  the next assignment, that of \<^verbatim>\<open>auth.NewClient\<close>, before anything reads it; the
  method value \<^verbatim>\<open>dialer.Dial\<close> is taken from whatever dialer came beside the error.
\<close>

definition newClusterPeer ::
  "peer_env \<Rightarrow> store \<Rightarrow> peer_ptr \<Rightarrow> server \<Rightarrow> TunnelConnection \<Rightarrow> (error + peer_ptr) \<times> store" where
  "newClusterPeer env h new srv' connInfo' =
     (let h = h(new := \<lparr>log = [(''cluster'', GetClusterName connInfo'), (''side'', ''server'')],
                clt = None, accessPoint = None, connInfo = connInfo', srv = srv'\<rparr>);
          (dialer, err) = NewProxyDialer env \<lparr>Config = srv_ClientConfig env srv', Dial = new\<rparr>
      in case auth_NewClient env ''http://stub:0'' dialer of
           Inl err \<Rightarrow> (Inl (Wrap err), h)
         | Inr clt' \<Rightarrow>
        (let h = h(new := (h new)\<lparr>clt := clt'\<rparr>)
         in case srv_newAccessPoint env srv' clt' [''reverse'', GetClusterName connInfo'] of
              Inl err \<Rightarrow> (Inl (Wrap err), h)
            | Inr accessPoint' \<Rightarrow>
                (Inr new, h(new := (h new)\<lparr>accessPoint := accessPoint'\<rparr>))))"

subsection \<open>localSite\<close>

type_synonym Agent = "nat option"
type_synonym Channel = "nat option"
type_synonym Certificate = nat
type_synonym forward_Server = nat

record localSite =
  client :: ClientI
  authServer :: string
  localSite_log :: "(string \<times> string) list"
  domainName :: string
  connections :: "nat list"
  lastUsed :: int
  lastActive :: Time
  localSite_srv :: "server option"
  localSite_accessPoint :: AccessPoint
  agent :: Agent
  agentChan :: Channel
  hostCertificateCache :: nat

text \<open>
  The collaborators of the local site: the host certificate cache, the forwarding
  server and the network.
\<close>

record site_env =
  hostCertificateCache_get :: "nat \<Rightarrow> string \<Rightarrow> error + Certificate"
  forward_New :: "ClientI \<Rightarrow> Agent \<Rightarrow> string \<Rightarrow> Certificate \<Rightarrow> error + forward_Server"
  remoteServer_Dial :: "forward_Server \<Rightarrow> string \<Rightarrow> error + net_Conn"
  net_Dial :: "string \<Rightarrow> string \<Rightarrow> error + net_Conn"

datatype site_event =
    Lock
  | Unlock
  | CacheGet nat string
  | ForwardNew ClientI Agent string Certificate
  | ForwardDial forward_Server string
  | NetDial string string

definition localSite_CachingAccessPoint :: "localSite \<Rightarrow> error + AccessPoint" where
  "localSite_CachingAccessPoint s = Inr (localSite_accessPoint s)"

definition localSite_GetClient :: "localSite \<Rightarrow> error + ClientI" where
  "localSite_GetClient s = Inr (client s)"

definition localSite_GetStatus :: "localSite \<Rightarrow> string" where
  "localSite_GetStatus s = RemoteSiteStatusOnline"

definition localSite_GetName :: "localSite \<Rightarrow> string" where
  "localSite_GetName s = domainName s"

definition localSite_GetLastConnected :: "Time \<Rightarrow> localSite \<Rightarrow> Time" where
  "localSite_GetLastConnected now s = now"

definition SetAgent :: "localSite \<Rightarrow> Agent \<Rightarrow> Channel \<Rightarrow> localSite" where
  "SetAgent s a ch = s\<lparr>agent := a, agentChan := ch\<rparr>"

text \<open>
  The body of \<^verbatim>\<open>localSite.Dial\<close> below the assignment of the local variable
  \<^verbatim>\<open>recordingProxy\<close>, as a function of that variable; the deferred \<^verbatim>\<open>Unlock\<close> ends
  every path.
\<close>

definition localSite_Dial_body ::
  "bool \<Rightarrow> site_env \<Rightarrow> localSite \<Rightarrow> net_Addr \<Rightarrow> net_Addr \<Rightarrow> (error + net_Conn) \<times> site_event list" where
  "localSite_Dial_body recordingProxy env s from to =
     (if recordingProxy then
        (let evs = [Lock, CacheGet (hostCertificateCache s) (String to)]
         in case hostCertificateCache_get env (hostCertificateCache s) (String to) of
              Inl err \<Rightarrow> (Inl (Wrap err), evs @ [Unlock])
            | Inr hostCertificate \<Rightarrow>
           (let evs = evs @ [ForwardNew (client s) (agent s) (String from) hostCertificate]
            in case forward_New env (client s) (agent s) (String from) hostCertificate of
                 Inl err \<Rightarrow> (Inl (Wrap err), evs @ [Unlock])
               | Inr remoteServer \<Rightarrow>
              (let evs = evs @ [ForwardDial remoteServer (String to)]
               in case remoteServer_Dial env remoteServer (String to) of
                    Inl err \<Rightarrow> (Inl (Wrap err), evs @ [Unlock])
                  | Inr conn \<Rightarrow> (Inr conn, evs @ [Unlock]))))
      else (net_Dial env (Network to) (String to),
            [Lock, NetDial (Network to) (String to), Unlock]))"

definition localSite_Dial ::
  "site_env \<Rightarrow> localSite \<Rightarrow> net_Addr \<Rightarrow> net_Addr \<Rightarrow> (error + net_Conn) \<times> site_event list" where
  "localSite_Dial env s from to =
     (let recordingProxy = True in localSite_Dial_body recordingProxy env s from to)"

fun is_CacheGet :: "site_event \<Rightarrow> bool" where
  "is_CacheGet (CacheGet _ _) = True"
| "is_CacheGet _ = False"

fun is_NetDial :: "site_event \<Rightarrow> bool" where
  "is_NetDial (NetDial _ _) = True"
| "is_NetDial _ = False"

subsection \<open>The invariant of a peer map\<close>

text \<open>
  Every peer is stored under the name of its own connection: \<^verbatim>\<open>addPeer\<close> stores a
  peer under \<^verbatim>\<open>peer.connInfo.GetName()\<close>, and \<^verbatim>\<open>updatePeer\<close> gives a peer a connection
  of the name it is stored under. Under this invariant no peer is stored under two
  names.
\<close>

definition peers_named :: "clusterPeers \<Rightarrow> store \<Rightarrow> bool" where
  "peers_named p h =
     (\<forall>name peer. peers p name = Some peer \<longrightarrow> GetName (connInfo (h peer)) = name)"

subsection \<open>Concrete instances\<close>

text \<open>
  Two peers of the cluster \<open>prod\<close>: \<open>peerA\<close>, at address 1, with its last heartbeat at
  100 s, and \<open>peerB\<close>, at address 2, with its last heartbeat at 105 s.
\<close>

definition peerA :: clusterPeer where
  "peerA = \<lparr>log = [(''cluster'', ''prod''), (''side'', ''server'')], clt = Some 1,
     accessPoint = Some 1,
     connInfo = \<lparr>GetName = ''conn-a'', GetClusterName = ''prod'',
       GetProxyAddr = ''10.0.0.1:3024'', GetLastHeartbeat = 100000000000\<rparr>,
     srv = 0\<rparr>"

definition peerB :: clusterPeer where
  "peerB = \<lparr>log = [(''cluster'', ''prod''), (''side'', ''server'')], clt = Some 2,
     accessPoint = Some 2,
     connInfo = \<lparr>GetName = ''conn-b'', GetClusterName = ''prod'',
       GetProxyAddr = ''10.0.0.2:3024'', GetLastHeartbeat = 105000000000\<rparr>,
     srv = 0\<rparr>"

definition example_store :: store where
  "example_store = (\<lambda>_. peerA)(2 := peerB)"

definition example_peers :: clusterPeers where
  "example_peers = \<lparr>clusterName = ''prod'', peers = [''conn-a'' \<mapsto> 1, ''conn-b'' \<mapsto> 2]\<rparr>"

text \<open>A later heartbeat of the connection \<open>conn-a\<close>, and a connection that is not registered.\<close>

definition connA' :: TunnelConnection where
  "connA' = \<lparr>GetName = ''conn-a'', GetClusterName = ''prod'',
     GetProxyAddr = ''10.0.0.1:3024'', GetLastHeartbeat = 110000000000\<rparr>"

definition connC :: TunnelConnection where
  "connC = \<lparr>GetName = ''conn-c'', GetClusterName = ''prod'',
     GetProxyAddr = ''10.0.0.3:3024'', GetLastHeartbeat = 110000000000\<rparr>"

text \<open>A dial to \<open>10.0.0.5:22\<close> in which every collaborator succeeds.\<close>

definition example_from :: net_Addr where
  "example_from = \<lparr>Network = ''tcp'', String = ''127.0.0.1:51000''\<rparr>"

definition example_to :: net_Addr where
  "example_to = \<lparr>Network = ''tcp'', String = ''10.0.0.5:22''\<rparr>"

definition succeeding_env :: peer_env where
  "succeeding_env = \<lparr>
     srv_ClientConfig = (\<lambda>_. 0),
     proxy_DialWithDeadline = (\<lambda>_ _ _. Inr 7),
     client_NewSession = (\<lambda>_. Inr 8),
     se_StdinPipe = (\<lambda>_. Inr 9),
     se_StdoutPipe = (\<lambda>_. Inr 10),
     se_RequestSubsystem = (\<lambda>_ _. None),
     NewProxyDialer = (\<lambda>_. (0, None)),
     auth_NewClient = (\<lambda>_ _. Inr (Some 3)),
     srv_newAccessPoint = (\<lambda>_ _ _. Inr (Some 4))\<rparr>"

section \<open>Properties\<close>

subsection \<open>The loop of pickPeer\<close>

lemma pickPeer_loop_mem:
  "pickPeer_loop h xs cur = Some r \<Longrightarrow> r \<in> set xs \<or> cur = Some r"
  by (induction xs arbitrary: cur) (auto split: option.splits if_splits)

lemma pickPeer_loop_Some:
  "cur \<noteq> None \<or> xs \<noteq> [] \<Longrightarrow> \<exists>r. pickPeer_loop h xs cur = Some r"
  by (induction xs arbitrary: cur) (auto split: option.splits)

text \<open>Once a peer is the current one, the result is at least as fresh.\<close>

lemma pickPeer_loop_cur_le:
  "pickPeer_loop h xs (Some c) = Some r \<Longrightarrow>
     GetLastHeartbeat (connInfo (h c)) \<le> GetLastHeartbeat (connInfo (h r))"
proof (induction xs arbitrary: c)
  case Nil
  then show ?case by simp
next
  case (Cons x xs)
  show ?case
  proof (cases "After (GetLastHeartbeat (connInfo (h x))) (GetLastHeartbeat (connInfo (h c)))")
    case True
    with Cons.prems have "pickPeer_loop h xs (Some x) = Some r" by simp
    from Cons.IH [OF this] True show ?thesis by (simp add: After_def)
  next
    case False
    with Cons.prems have "pickPeer_loop h xs (Some c) = Some r" by simp
    from Cons.IH [OF this] show ?thesis .
  qed
qed

lemma pickPeer_loop_max:
  "pickPeer_loop h xs cur = Some r \<Longrightarrow> x \<in> set xs \<Longrightarrow>
     GetLastHeartbeat (connInfo (h x)) \<le> GetLastHeartbeat (connInfo (h r))"
proof (induction xs arbitrary: cur)
  case Nil
  then show ?case by simp
next
  case (Cons y ys)
  define c where "c = (case cur of None \<Rightarrow> y
      | Some a \<Rightarrow> if After (GetLastHeartbeat (connInfo (h y))) (GetLastHeartbeat (connInfo (h a)))
          then y else a)"
  have step: "pickPeer_loop h (y # ys) cur = pickPeer_loop h ys (Some c)"
    by (cases cur) (simp_all add: c_def)
  have c: "GetLastHeartbeat (connInfo (h y)) \<le> GetLastHeartbeat (connInfo (h c))"
    by (cases cur) (simp_all add: c_def After_def)
  from Cons.prems(1) step have r: "pickPeer_loop h ys (Some c) = Some r" by simp
  show ?case
  proof (cases "x = y")
    case True
    with c pickPeer_loop_cur_le [OF r] show ?thesis by simp
  next
    case False
    with Cons.prems(2) have "x \<in> set ys" by simp
    from Cons.IH [OF r this] show ?thesis .
  qed
qed

lemma set_map_filter_peers:
  "set order = dom m \<Longrightarrow> set (List.map_filter m order) = ran m"
  by (auto simp: List.map_filter_def ran_def dom_def) force+

lemma pickPeer_in_ran:
  "pickPeer p h order = Inr peer \<Longrightarrow> \<exists>name. peers p name = Some peer"
proof -
  assume "pickPeer p h order = Inr peer"
  then have "pickPeer_loop h (List.map_filter (peers p) order) None = Some peer"
    by (simp add: pickPeer_def split: option.splits)
  from pickPeer_loop_mem [OF this]
  have "peer \<in> set (List.map_filter (peers p) order)" by simp
  then show ?thesis by (auto simp: List.map_filter_def)
qed

lemma pickPeer_empty:
  "peers p = Map.empty \<Longrightarrow>
     pickPeer p h order = Inl (NotFound ''no active peers found for %v'' [])"
  by (simp add: pickPeer_def List.map_filter_def)

subsection \<open>The invariant is established and kept\<close>

lemma peers_named_inj:
  "peers_named p h \<Longrightarrow> peers p name = Some peer \<Longrightarrow> peers p name' = Some peer \<Longrightarrow>
     name = name'"
  by (metis peers_named_def)

lemma peers_named_newClusterPeers: "peers_named (newClusterPeers name) h"
  by (simp add: peers_named_def newClusterPeers_def)

lemma peers_named_addPeer: "peers_named p h \<Longrightarrow> peers_named (addPeer p h peer) h"
  by (simp add: peers_named_def addPeer_def)

lemma peers_named_removePeer: "peers_named p h \<Longrightarrow> peers_named (removePeer p conn) h"
  by (simp add: peers_named_def removePeer_def)

lemma peers_named_updatePeer:
  "peers_named p h \<Longrightarrow> updatePeer p h conn = (ok, p', h') \<Longrightarrow> peers_named p' h'"
proof -
  assume n: "peers_named p h" and u: "updatePeer p h conn = (ok, p', h')"
  show ?thesis
  proof (cases "peers p (GetName conn)")
    case None
    with u n show ?thesis by (simp add: updatePeer_def)
  next
    case (Some peer)
    with u have p': "p' = p" and h': "h' = h(peer := (h peer)\<lparr>connInfo := conn\<rparr>)"
      by (auto simp: updatePeer_def)
    have "GetName (connInfo (h' other)) = name" if o: "peers p name = Some other" for name other
    proof (cases "other = peer")
      case True
      with peers_named_inj [OF n Some] o have "name = GetName conn" by simp
      with True show ?thesis by (simp add: h')
    next
      case False
      with n o show ?thesis by (simp add: h' peers_named_def)
    qed
    then show ?thesis by (simp add: peers_named_def p')
  qed
qed

lemma peers_named_example: "peers_named example_peers example_store"
  by (auto simp: peers_named_def example_peers_def example_store_def peerA_def peerB_def
      split: if_splits)

subsection \<open>Picking a peer\<close>

text \<open>
  Claim C2. For every non-empty peer map, and in whatever order the map is ranged over,
  \<^verbatim>\<open>pickPeer\<close> succeeds, and the peer it returns is registered in the map and has a last
  heartbeat greater than or equal to that of every registered peer.
\<close>

theorem pickPeer_freshest:
  assumes ord: "iteration_order p order" and ne: "peers p \<noteq> Map.empty"
  shows "\<exists>name peer. pickPeer p h order = Inr peer \<and> peers p name = Some peer \<and>
           (\<forall>name' peer'. peers p name' = Some peer' \<longrightarrow>
              GetLastHeartbeat (connInfo (h peer')) \<le> GetLastHeartbeat (connInfo (h peer)))"
proof -
  let ?xs = "List.map_filter (peers p) order"
  from ord have xs: "set ?xs = ran (peers p)"
    by (simp add: iteration_order_def set_map_filter_peers)
  from ne have "ran (peers p) \<noteq> {}"
    by (metis empty_iff ranI not_Some_eq ext)
  with xs have "?xs \<noteq> []" by auto
  then obtain peer where loop: "pickPeer_loop h ?xs None = Some peer"
    using pickPeer_loop_Some [of None ?xs h] by blast
  then have res: "pickPeer p h order = Inr peer"
    by (simp add: pickPeer_def)
  from pickPeer_in_ran [OF res] obtain name where name: "peers p name = Some peer" ..
  have "GetLastHeartbeat (connInfo (h peer')) \<le> GetLastHeartbeat (connInfo (h peer))"
    if "peers p name' = Some peer'" for name' peer'
  proof -
    from that have "peer' \<in> ran (peers p)" by (rule ranI)
    with xs have "peer' \<in> set ?xs" by simp
    from pickPeer_loop_max [OF loop this] show ?thesis .
  qed
  with res name show ?thesis by blast
qed

text \<open>
  With \<open>peerA\<close> at 100 s and \<open>peerB\<close> at 105 s, \<^verbatim>\<open>pickPeer\<close> returns \<open>peerB\<close> in either
  order of the two keys.
\<close>

theorem pickPeer_freshest_witness:
  "iteration_order example_peers [''conn-a'', ''conn-b''] \<and>
   iteration_order example_peers [''conn-b'', ''conn-a''] \<and>
   peers example_peers \<noteq> Map.empty \<and>
   pickPeer example_peers example_store [''conn-a'', ''conn-b''] = Inr 2 \<and>
   pickPeer example_peers example_store [''conn-b'', ''conn-a''] = Inr 2"
proof -
  have o1: "iteration_order example_peers [''conn-a'', ''conn-b'']"
    by (auto simp: iteration_order_def example_peers_def split: if_splits)
  have o2: "iteration_order example_peers [''conn-b'', ''conn-a'']"
    by (auto simp: iteration_order_def example_peers_def split: if_splits)
  have ne: "peers example_peers \<noteq> Map.empty"
    by (simp add: example_peers_def)
  have hb: "GetLastHeartbeat (connInfo (example_store 1)) <
      GetLastHeartbeat (connInfo (example_store 2))"
    by (simp add: example_store_def peerA_def peerB_def)
  have keys: "\<And>name peer. peers example_peers name = Some peer \<Longrightarrow> peer = 1 \<or> peer = 2"
    by (auto simp: example_peers_def split: if_splits)
  have p2: "peers example_peers ''conn-b'' = Some 2"
    by (simp add: example_peers_def)
  have "pickPeer example_peers example_store order = Inr 2"
    if "iteration_order example_peers order" for order
  proof -
    from pickPeer_freshest [OF that ne, of example_store]
    obtain name peer where r: "pickPeer example_peers example_store order = Inr peer"
      and n: "peers example_peers name = Some peer"
      and m: "\<forall>name' peer'. peers example_peers name' = Some peer' \<longrightarrow>
              GetLastHeartbeat (connInfo (example_store peer')) \<le>
              GetLastHeartbeat (connInfo (example_store peer))"
      by blast
    from m p2 have "GetLastHeartbeat (connInfo (example_store 2)) \<le>
        GetLastHeartbeat (connInfo (example_store peer))"
      by blast
    with hb keys [OF n] have "peer = 2" by auto
    with r show ?thesis by simp
  qed
  with o1 o2 ne show ?thesis by simp
qed

subsection \<open>The empty peer map\<close>

lemma clusterPeer_GetStatus_cases:
  "clusterPeer_GetStatus threshold now s = ''offline'' \<or>
   clusterPeer_GetStatus threshold now s = ''online''"
  by (simp add: clusterPeer_GetStatus_def Let_def RemoteSiteStatusOffline_def
      RemoteSiteStatusOnline_def)

lemma clusterPeers_GetStatus_cases:
  "clusterPeers_GetStatus threshold now p h order = ''offline'' \<or>
   clusterPeers_GetStatus threshold now p h order = ''online''"
  using clusterPeer_GetStatus_cases
  by (auto simp: clusterPeers_GetStatus_def RemoteSiteStatusOffline_def split: sum.splits)

text \<open>
  Claim C5. When the peer map is empty, \<^verbatim>\<open>pickPeer\<close> fails with a NotFound error and
  \<^verbatim>\<open>clusterPeers.GetStatus\<close> returns "offline". \<^verbatim>\<open>GetStatus\<close> has no error result: on
  every peer map \<open>q\<close> it returns one of the two status strings.
\<close>

theorem empty_peers_NotFound_offline:
  "(peers p = Map.empty \<longrightarrow>
      pickPeer p h order = Inl (NotFound ''no active peers found for %v'' []) \<and>
      (\<exists>err. pickPeer p h order = Inl err \<and> IsNotFound err) \<and>
      clusterPeers_GetStatus threshold now p h order = ''offline'') \<and>
   (clusterPeers_GetStatus threshold now q h order = ''offline'' \<or>
    clusterPeers_GetStatus threshold now q h order = ''online'')"
  using clusterPeers_GetStatus_cases [of threshold now q h order]
  by (simp add: pickPeer_empty clusterPeers_GetStatus_def RemoteSiteStatusOffline_def)

theorem empty_peers_NotFound_offline_witness:
  "peers (newClusterPeers ''prod'') = Map.empty \<and>
   pickPeer (newClusterPeers ''prod'') example_store [] =
     Inl (NotFound ''no active peers found for %v'' []) \<and>
   clusterPeers_GetStatus 25000000000 130000000000 (newClusterPeers ''prod'') example_store []
     = ''offline''"
  using empty_peers_NotFound_offline
    [of "newClusterPeers ''prod''" example_store "[]" 25000000000 130000000000]
  by (simp add: newClusterPeers_def)

text \<open>
  Claim C9. When the peer map is empty, \<^verbatim>\<open>clusterPeers.GetLastConnected\<close> returns the
  zero time; it has no error result to carry the error of \<^verbatim>\<open>pickPeer\<close>.
\<close>

theorem empty_peers_GetLastConnected_zero:
  "peers p = Map.empty \<Longrightarrow> clusterPeers_GetLastConnected p h order = zeroTime"
  by (simp add: pickPeer_empty clusterPeers_GetLastConnected_def)

theorem empty_peers_GetLastConnected_zero_witness:
  "peers (newClusterPeers ''prod'') = Map.empty \<and>
   clusterPeers_GetLastConnected (newClusterPeers ''prod'') example_store [] = zeroTime \<and>
   zeroTime = 0"
  using empty_peers_GetLastConnected_zero [of "newClusterPeers ''prod''" example_store "[]"]
  by (simp add: newClusterPeers_def zeroTime_def)

subsection \<open>The status of a peer\<close>

lemma Sub_exceeds:
  "minDuration \<le> threshold \<Longrightarrow> threshold < maxDuration \<Longrightarrow>
     (threshold < Sub t u) = (threshold < t - u)"
  by (auto simp: Sub_def)

lemma Sub_at_threshold:
  "minDuration \<le> threshold \<Longrightarrow> t - u = threshold \<Longrightarrow> \<not> threshold < Sub t u"
  by (auto simp: Sub_def)

text \<open>
  Claim C6. \<^verbatim>\<open>clusterPeer.GetStatus\<close> returns "offline" exactly when the elapsed time
  \<^verbatim>\<open>now.Sub(LastHeartbeat)\<close> exceeds the threshold, and "online" otherwise. For a
  threshold that is a duration below the largest one, the elapsed time is the difference
  of the two instants; an elapsed time of exactly the threshold gives "online".
  \<^verbatim>\<open>GetLastConnected\<close> returns the last heartbeat.
\<close>

theorem clusterPeer_GetStatus_threshold:
  "(clusterPeer_GetStatus threshold now s = ''offline'') =
     (threshold < Sub now (GetLastHeartbeat (connInfo s))) \<and>
   (clusterPeer_GetStatus threshold now s = ''online'') =
     (Sub now (GetLastHeartbeat (connInfo s)) \<le> threshold) \<and>
   (minDuration \<le> threshold \<and> threshold < maxDuration \<longrightarrow>
      (clusterPeer_GetStatus threshold now s = ''offline'') =
        (threshold < now - GetLastHeartbeat (connInfo s)) \<and>
      (clusterPeer_GetStatus threshold now s = ''online'') =
        (now - GetLastHeartbeat (connInfo s) \<le> threshold)) \<and>
   (minDuration \<le> threshold \<and> now - GetLastHeartbeat (connInfo s) = threshold \<longrightarrow>
      clusterPeer_GetStatus threshold now s = ''online'') \<and>
   clusterPeer_GetLastConnected s = GetLastHeartbeat (connInfo s)"
proof -
  let ?hb = "GetLastHeartbeat (connInfo s)"
  have off: "(clusterPeer_GetStatus threshold now s = ''offline'') = (threshold < Sub now ?hb)"
    by (simp add: clusterPeer_GetStatus_def Let_def RemoteSiteStatusOffline_def
        RemoteSiteStatusOnline_def)
  have on: "(clusterPeer_GetStatus threshold now s = ''online'') = (Sub now ?hb \<le> threshold)"
    by (auto simp: clusterPeer_GetStatus_def Let_def RemoteSiteStatusOffline_def
        RemoteSiteStatusOnline_def)
  have diff: "(clusterPeer_GetStatus threshold now s = ''offline'') = (threshold < now - ?hb)"
    "(clusterPeer_GetStatus threshold now s = ''online'') = (now - ?hb \<le> threshold)"
    if "minDuration \<le> threshold" "threshold < maxDuration"
    using Sub_exceeds [OF that, of now ?hb] off on by auto
  have eq: "clusterPeer_GetStatus threshold now s = ''online''"
    if "minDuration \<le> threshold" "now - ?hb = threshold"
    using Sub_at_threshold [OF that] on by auto
  have "clusterPeer_GetLastConnected s = ?hb"
    by (simp add: clusterPeer_GetLastConnected_def)
  with off on diff eq show ?thesis by blast
qed

text \<open>
  \<open>peerB\<close>, last heard at 105 s, under a threshold of 25 s: online at 130 s and
  before, offline one nanosecond later.
\<close>

theorem clusterPeer_GetStatus_threshold_witness:
  "minDuration \<le> 25000000000 \<and> 25000000000 < maxDuration \<and>
   130000000000 - GetLastHeartbeat (connInfo peerB) = 25000000000 \<and>
   clusterPeer_GetStatus 25000000000 130000000000 peerB = ''online'' \<and>
   clusterPeer_GetStatus 25000000000 130000000001 peerB = ''offline'' \<and>
   clusterPeer_GetStatus 25000000000 129999999999 peerB = ''online'' \<and>
   clusterPeer_GetLastConnected peerB = 105000000000"
proof -
  have r: "minDuration \<le> 25000000000" "25000000000 < maxDuration"
    by (simp_all add: minDuration_def maxDuration_def)
  have hb: "GetLastHeartbeat (connInfo peerB) = 105000000000"
    by (simp add: peerB_def)
  from clusterPeer_GetStatus_threshold [of 25000000000 130000000000 peerB]
    clusterPeer_GetStatus_threshold [of 25000000000 130000000001 peerB]
    clusterPeer_GetStatus_threshold [of 25000000000 129999999999 peerB]
  show ?thesis using r by (simp add: hb)
qed

subsection \<open>Updating and removing a peer\<close>

text \<open>
  Claim C7. \<^verbatim>\<open>updatePeer\<close> never changes the peer map. With a connection name that is
  not in the map it returns false and leaves the store unchanged. With a name that is
  in the map it returns true, the name still denotes the same peer object, and the
  store changes at that object only, and there in the field \<^verbatim>\<open>connInfo\<close> only: the
  client, the access point, the server and the log are as before, every other peer
  object is as before, and so is the peer of every other name (a peer is stored under
  one name only, by the invariant of the map).
\<close>

theorem updatePeer_frame:
  "updatePeer p h conn = (ok, p', h') \<Longrightarrow>
     p' = p \<and>
     (peers p (GetName conn) = None \<longrightarrow> \<not> ok \<and> h' = h) \<and>
     (\<forall>peer. peers p (GetName conn) = Some peer \<longrightarrow>
        ok \<and> peers p' (GetName conn) = Some peer \<and>
        h' = h(peer := (h peer)\<lparr>connInfo := conn\<rparr>) \<and>
        connInfo (h' peer) = conn \<and>
        clt (h' peer) = clt (h peer) \<and>
        accessPoint (h' peer) = accessPoint (h peer) \<and>
        srv (h' peer) = srv (h peer) \<and>
        log (h' peer) = log (h peer) \<and>
        (\<forall>other. other \<noteq> peer \<longrightarrow> h' other = h other) \<and>
        (peers_named p h \<longrightarrow>
           (\<forall>name other. name \<noteq> GetName conn \<longrightarrow> peers p name = Some other \<longrightarrow>
              h' other = h other)))"
proof -
  assume u: "updatePeer p h conn = (ok, p', h')"
  show ?thesis
  proof (cases "peers p (GetName conn)")
    case None
    with u show ?thesis by (simp add: updatePeer_def)
  next
    case (Some peer)
    with u have ok: ok and p': "p' = p" and h': "h' = h(peer := (h peer)\<lparr>connInfo := conn\<rparr>)"
      by (auto simp: updatePeer_def)
    have "h' other = h other"
      if "peers_named p h" "name \<noteq> GetName conn" "peers p name = Some other" for name other
    proof -
      from peers_named_inj [OF that(1) that(3)] Some that(2) have "other \<noteq> peer" by auto
      then show ?thesis by (simp add: h')
    qed
    with Some ok p' h' show ?thesis by simp
  qed
qed

text \<open>
  In the example map, the unregistered \<open>conn-c\<close> changes nothing, and a new heartbeat of
  \<open>conn-a\<close> replaces the connection of \<open>peerA\<close> and leaves \<open>peerB\<close> as it was.
\<close>

theorem updatePeer_frame_witness:
  "updatePeer example_peers example_store connC = (False, example_peers, example_store) \<and>
   updatePeer example_peers example_store connA' =
     (True, example_peers, example_store(1 := peerA\<lparr>connInfo := connA'\<rparr>)) \<and>
   peers example_peers (GetName connA') = Some 1 \<and>
   peers example_peers (GetName connC) = None \<and>
   peers_named example_peers example_store \<and>
   (example_store(1 := peerA\<lparr>connInfo := connA'\<rparr>)) 2 = peerB \<and>
   clt ((example_store(1 := peerA\<lparr>connInfo := connA'\<rparr>)) 1) = Some 1"
proof -
  have c: "updatePeer example_peers example_store connC = (False, example_peers, example_store)"
    by (simp add: updatePeer_def example_peers_def connC_def)
  have a: "updatePeer example_peers example_store connA' =
     (True, example_peers, example_store(1 := peerA\<lparr>connInfo := connA'\<rparr>))"
    by (simp add: updatePeer_def example_peers_def connA'_def example_store_def)
  have n: "peers example_peers (GetName connA') = Some 1"
    "peers example_peers (GetName connC) = None"
    "peers example_peers ''conn-b'' = Some 2" "''conn-b'' \<noteq> GetName connA'"
    by (simp_all add: example_peers_def connA'_def connC_def)
  have e: "example_store 2 = peerB" "example_store 1 = peerA"
    by (simp_all add: example_store_def)
  from updatePeer_frame [OF a] n peers_named_example
  have "(example_store(1 := peerA\<lparr>connInfo := connA'\<rparr>)) 2 = example_store 2"
    and "clt ((example_store(1 := peerA\<lparr>connInfo := connA'\<rparr>)) 1) = clt (example_store 1)"
    by blast+
  with updatePeer_frame [OF c] a c n peers_named_example e show ?thesis
    by (simp add: peerA_def)
qed

lemma pickPeer_removePeer_other:
  "pickPeer (removePeer p conn) h order = Inr peer \<Longrightarrow>
     \<exists>name. name \<noteq> GetName conn \<and> peers p name = Some peer"
  by (drule pickPeer_in_ran) (auto simp: removePeer_def split: if_splits)

text \<open>
  Claim C8. After \<^verbatim>\<open>removePeer(conn)\<close>, \<^verbatim>\<open>pickPeer\<close> on the resulting map, in any order
  and whatever the peers' heartbeats have become, does not return the peer that was
  registered under the name of \<open>conn\<close>: what it returns is registered under another
  name, and by the invariant of the map the removed peer is under no other name.
  Removing a name that is not in the map leaves the map unchanged, and removing twice
  is removing once.
\<close>

theorem removePeer_never_picked:
  "(peers_named p h \<and> peers p (GetName conn) = Some removed \<longrightarrow>
      pickPeer (removePeer p conn) h' order \<noteq> Inr removed) \<and>
   (\<forall>peer. pickPeer (removePeer p conn) h' order = Inr peer \<longrightarrow>
      (\<exists>name. name \<noteq> GetName conn \<and> peers p name = Some peer)) \<and>
   (peers p (GetName conn) = None \<longrightarrow> removePeer p conn = p) \<and>
   removePeer (removePeer p conn) conn = removePeer p conn \<and>
   peers (removePeer p conn) (GetName conn) = None \<and>
   (\<forall>name. name \<noteq> GetName conn \<longrightarrow> peers (removePeer p conn) name = peers p name)"
proof -
  have "pickPeer (removePeer p conn) h' order \<noteq> Inr removed"
    if n: "peers_named p h" and r: "peers p (GetName conn) = Some removed"
  proof
    assume "pickPeer (removePeer p conn) h' order = Inr removed"
    from pickPeer_removePeer_other [OF this] obtain name
      where "name \<noteq> GetName conn" "peers p name = Some removed" by blast
    with peers_named_inj [OF n r] show False by blast
  qed
  moreover have "removePeer p conn = p" if "peers p (GetName conn) = None"
  proof -
    from that have "(peers p)(GetName conn := None) = peers p" by (simp add: fun_upd_idem)
    then show ?thesis by (simp add: removePeer_def)
  qed
  moreover have "\<exists>name. name \<noteq> GetName conn \<and> peers p name = Some peer"
    if "pickPeer (removePeer p conn) h' order = Inr peer" for peer
    using that by (rule pickPeer_removePeer_other)
  ultimately show ?thesis by (simp add: removePeer_def)
qed

text \<open>
  With \<open>peerB\<close> removed from the example map, \<^verbatim>\<open>pickPeer\<close> returns \<open>peerA\<close>; removing
  the unregistered \<open>conn-c\<close> changes nothing.
\<close>

theorem removePeer_never_picked_witness:
  "peers_named example_peers example_store \<and>
   peers example_peers (GetName (connInfo peerB)) = Some 2 \<and>
   pickPeer (removePeer example_peers (connInfo peerB)) example_store [''conn-a''] = Inr 1 \<and>
   pickPeer (removePeer example_peers (connInfo peerB)) example_store [''conn-a''] \<noteq> Inr 2 \<and>
   peers example_peers (GetName connC) = None \<and>
   removePeer example_peers connC = example_peers"
proof -
  have b: "peers example_peers (GetName (connInfo peerB)) = Some 2"
    and c: "peers example_peers (GetName connC) = None"
    by (simp_all add: example_peers_def peerB_def connC_def)
  have pick: "pickPeer (removePeer example_peers (connInfo peerB)) example_store [''conn-a'']
      = Inr 1"
    by (simp add: pickPeer_def removePeer_def example_peers_def peerB_def List.map_filter_def)
  from removePeer_never_picked
      [of example_peers example_store "connInfo peerB" 2 example_store "[''conn-a'']"]
    removePeer_never_picked [of example_peers example_store connC 2 example_store "[]"]
    peers_named_example b c pick
  show ?thesis by simp
qed

subsection \<open>Dialing through a peer\<close>

lemma Dial_connect_failure:
  "proxy_DialWithDeadline env (Network to) (GetProxyAddr (connInfo s))
     (srv_ClientConfig env (srv s)) = Inl err \<Longrightarrow>
   clusterPeer_Dial env s from to =
     (Inl (Wrap err),
      [DialWithDeadline (Network to) (GetProxyAddr (connInfo s)) (srv_ClientConfig env (srv s))])"
  by (simp add: clusterPeer_Dial_def)

text \<open>
  Once the client is open, every path closes it exactly once; once the session is open,
  every path closes it exactly once. The path that returns the connection is one of them.
\<close>

lemma Dial_closes_opened_client:
  "proxy_DialWithDeadline env (Network to) (GetProxyAddr (connInfo s))
     (srv_ClientConfig env (srv s)) = Inr cl \<Longrightarrow>
   [e \<leftarrow> snd (clusterPeer_Dial env s from to). \<exists>c. e = ClientClose c] = [ClientClose cl]"
  by (simp add: clusterPeer_Dial_def Let_def split: sum.splits option.splits)

lemma Dial_closes_opened_session:
  "proxy_DialWithDeadline env (Network to) (GetProxyAddr (connInfo s))
     (srv_ClientConfig env (srv s)) = Inr cl \<Longrightarrow>
   client_NewSession env cl = Inr se \<Longrightarrow>
   [e \<leftarrow> snd (clusterPeer_Dial env s from to). \<exists>x. e = SessionClose x] = [SessionClose se]"
  by (simp add: clusterPeer_Dial_def Let_def split: sum.splits option.splits)

lemma Dial_request_name:
  "RequestSubsystem se name \<in> set (snd (clusterPeer_Dial env s from to)) \<Longrightarrow>
     name = ''proxy:'' @ String to @ ''@'' @ GetClusterName (connInfo s)"
  by (auto simp: clusterPeer_Dial_def Let_def split: sum.splits option.splits)

text \<open>
  Claim C1. The claim has \<^verbatim>\<open>Dial\<close> close the client and the session on every return
  path but the successful one, where both pass to the returned adapter unclosed. In
  the source both \<^verbatim>\<open>defer\<close> statements are unconditional: when every step succeeds,
  \<^verbatim>\<open>Dial\<close> returns the adapter built on the session \<open>se\<close> and, returning, closes the
  session \<open>se\<close> and then the client \<open>cl\<close>.
\<close>

theorem Dial_success_runs_deferred_Close:
  "clusterPeer_Dial
     (env\<lparr>proxy_DialWithDeadline := (\<lambda>network addr cfg. Inr cl),
          client_NewSession := (\<lambda>c. Inr se),
          se_StdinPipe := (\<lambda>se. Inr writer),
          se_StdoutPipe := (\<lambda>se. Inr reader),
          se_RequestSubsystem := (\<lambda>se name. None)\<rparr>) s from to =
     (Inr (NewPipeNetConn reader writer se from to),
      [DialWithDeadline (Network to) (GetProxyAddr (connInfo s)) (srv_ClientConfig env (srv s)),
       NewSession cl, StdinPipe se, StdoutPipe se,
       RequestSubsystem se (''proxy:'' @ String to @ ''@'' @ GetClusterName (connInfo s)),
       SessionClose se, ClientClose cl]) \<and>
   filter is_Close (snd (clusterPeer_Dial
     (env\<lparr>proxy_DialWithDeadline := (\<lambda>network addr cfg. Inr cl),
          client_NewSession := (\<lambda>c. Inr se),
          se_StdinPipe := (\<lambda>se. Inr writer),
          se_StdoutPipe := (\<lambda>se. Inr reader),
          se_RequestSubsystem := (\<lambda>se name. None)\<rparr>) s from to)) =
     [SessionClose se, ClientClose cl]"
  by (simp add: clusterPeer_Dial_def)

text \<open>
  Claim C4. Whenever \<^verbatim>\<open>Dial\<close> gets as far as the subsystem request (the connection, the
  session and both pipes are open), it sends one request, and its name is "proxy:", the
  destination address, "@" and the cluster name of the peer, in this order.
\<close>

theorem Dial_subsystem_request:
  assumes "proxy_DialWithDeadline env (Network to) (GetProxyAddr (connInfo s))
             (srv_ClientConfig env (srv s)) = Inr cl"
    and "client_NewSession env cl = Inr se"
    and "se_StdinPipe env se = Inr writer"
    and "se_StdoutPipe env se = Inr reader"
  shows "filter is_RequestSubsystem (snd (clusterPeer_Dial env s from to)) =
           [RequestSubsystem se (''proxy:'' @ String to @ ''@'' @ GetClusterName (connInfo s))]"
  using assms by (simp add: clusterPeer_Dial_def Let_def split: option.splits)

text \<open>Dialing \<open>10.0.0.5:22\<close> through a peer of the cluster \<open>prod\<close>.\<close>

theorem Dial_subsystem_request_witness:
  "filter is_RequestSubsystem
     (snd (clusterPeer_Dial succeeding_env peerA example_from example_to)) =
     [RequestSubsystem 8 ''proxy:10.0.0.5:22@prod'']"
  using Dial_subsystem_request [of succeeding_env example_to peerA 7 8 9 10 example_from]
  by (simp add: succeeding_env_def example_to_def peerA_def)

subsection \<open>Dialing in the local site\<close>

text \<open>
  Claim C3. With \<^verbatim>\<open>recordingProxy\<close> true, \<^verbatim>\<open>localSite.Dial\<close> looks the target address
  up in the host certificate cache exactly once and never dials the network directly,
  whatever the cache, the forwarding server and its dial return; with
  \<^verbatim>\<open>recordingProxy\<close> false it makes no lookup and exactly one direct dial of the target.
  \<^verbatim>\<open>Dial\<close> sets the variable to true, so every call of it is of the first kind.
\<close>

theorem localSite_Dial_lookups_and_dials:
  "length (filter is_CacheGet (snd (localSite_Dial_body True env s from to))) = 1 \<and>
   length (filter is_NetDial (snd (localSite_Dial_body True env s from to))) = 0 \<and>
   filter is_CacheGet (snd (localSite_Dial_body True env s from to)) =
     [CacheGet (hostCertificateCache s) (String to)] \<and>
   length (filter is_CacheGet (snd (localSite_Dial_body False env s from to))) = 0 \<and>
   length (filter is_NetDial (snd (localSite_Dial_body False env s from to))) = 1 \<and>
   filter is_NetDial (snd (localSite_Dial_body False env s from to)) =
     [NetDial (Network to) (String to)] \<and>
   localSite_Dial env s from to = localSite_Dial_body True env s from to \<and>
   length (filter is_CacheGet (snd (localSite_Dial env s from to))) = 1 \<and>
   length (filter is_NetDial (snd (localSite_Dial env s from to))) = 0"
  by (simp add: localSite_Dial_def localSite_Dial_body_def Let_def split: sum.splits)

subsection \<open>Constructing a peer\<close>

text \<open>
  Claim C10. \<^verbatim>\<open>newClusterPeer\<close> does not read the error that \<^verbatim>\<open>NewProxyDialer\<close>
  returns: its result is the same when that error is replaced by nil. When
  \<^verbatim>\<open>NewProxyDialer\<close> returns an error and the two later steps succeed, \<^verbatim>\<open>newClusterPeer\<close>
  returns the peer, with the client built from the dialer returned beside the error.
\<close>

theorem newClusterPeer_discards_dialer_error:
  "newClusterPeer env h new sv conn =
     newClusterPeer (env\<lparr>NewProxyDialer := (\<lambda>cfg. (fst (NewProxyDialer env cfg), None))\<rparr>)
       h new sv conn \<and>
   newClusterPeer
     (env\<lparr>NewProxyDialer := (\<lambda>cfg. (dialer, Some err)),
          auth_NewClient := (\<lambda>endpoint d. Inr (mk d)),
          srv_newAccessPoint := (\<lambda>sv c names. Inr ap)\<rparr>) h new sv conn =
     (Inr new,
      h(new := \<lparr>log = [(''cluster'', GetClusterName conn), (''side'', ''server'')],
                 clt = mk dialer, accessPoint = ap, connInfo = conn, srv = sv\<rparr>))"
  by (simp add: newClusterPeer_def Let_def split: prod.splits sum.splits)

end
